theory Spec2Isabelle
  imports Main
begin

section \<open>The GAX wrapper for Logging API requests (gcloud/logging/\_gax.py)\<close>

text \<open>
  The module adapts dictionaries ("mappings") to protocol-buffer messages and back, and
  wraps eight RPCs of a generated client. The embedding follows the source function by
  function. What the module imports from other packages and does not define itself is
  either a parameter (\<open>exc_to_code\<close>, \<open>LogSeverity.Value\<close>,
  \<open>_datetime_to_pb_timestamp\<close>, \<open>Struct.__setitem__\<close>, \<open>json_format.Parse\<close>, the RPC
  stubs) or a small model stated as such (the message types, their defaults, the oneof of
  the payload fields, the truth value of a message object, the type check of a field
  assignment). The two listing methods, which no property below concerns, are left out.
\<close>

subsection \<open>Python values\<close>

text \<open>
  The values a mapping can hold. A nested \<open>dict\<close> is an association list, because
  \<open>.items()\<close> iterates it; a well-formed one has distinct keys. \<open>PDatetime\<close> stands for a
  \<open>datetime.datetime\<close> object; its argument identifies the instant and is only read by
  the timestamp helper, which is a parameter.
\<close>

datatype pyval =
    PNone
  | PBool bool
  | PInt int
  | PStr string
  | PList "pyval list"
  | PDict "(string \<times> pyval) list"
  | PDatetime int

type_synonym mapping = "string \<rightharpoonup> pyval"

subsection \<open>Exceptions\<close>

text \<open>
  \<open>GaxError\<close> is the transport error of google.gax; it carries its \<open>cause\<close>, of a type
  \<open>'c\<close> the module never inspects except through \<open>exc_to_code\<close>. \<open>Conflict\<close> and
  \<open>NotFound\<close> are the two errors of gcloud.exceptions the module raises, with their
  message. \<open>Raised\<close> is any other exception, named, that a stub or a helper raises.
\<close>

datatype 'c error =
    GaxError 'c
  | Conflict string
  | NotFound string
  | KeyError string
  | TypeError
  | ValueError
  | AttributeError
  | Raised string

definition and_then :: "'e + 'a \<Rightarrow> ('a \<Rightarrow> 'e + 'b) \<Rightarrow> 'e + 'b" where
  "and_then r f = (case r of Inl e \<Rightarrow> Inl e | Inr x \<Rightarrow> f x)"

text \<open>grpc.beta.interfaces.StatusCode\<close>

datatype status_code =
    OK | CANCELLED | UNKNOWN | INVALID_ARGUMENT | DEADLINE_EXCEEDED | NOT_FOUND
  | ALREADY_EXISTS | PERMISSION_DENIED | UNAUTHENTICATED | RESOURCE_EXHAUSTED
  | FAILED_PRECONDITION | ABORTED | OUT_OF_RANGE | UNIMPLEMENTED | INTERNAL
  | UNAVAILABLE | DATA_LOSS

subsection \<open>Python's operators on a value\<close>

text \<open>
  \<open>key in info\<close>: membership of the key for a dict, the substring test for a string,
  membership of an equal element for a list, TypeError for a value that is not iterable.
\<close>

fun starts_with :: "string \<Rightarrow> string \<Rightarrow> bool" where
  "starts_with s [] = True"
| "starts_with [] (c # cs) = False"
| "starts_with (d # ds) (c # cs) = (d = c \<and> starts_with ds cs)"

fun str_contains :: "string \<Rightarrow> string \<Rightarrow> bool" where
  "str_contains [] key = (key = [])"
| "str_contains (d # ds) key = (starts_with (d # ds) key \<or> str_contains ds key)"

fun py_contains :: "pyval \<Rightarrow> string \<Rightarrow> 'c error + bool" where
  "py_contains (PDict d) key = Inr (map_of d key \<noteq> None)"
| "py_contains (PStr s) key = Inr (str_contains s key)"
| "py_contains (PList xs) key = Inr (PStr key \<in> set xs)"
| "py_contains v key = Inl TypeError"

text \<open>
  \<open>info[key]\<close> with a string key: the value for a dict, KeyError when the dict lacks the
  key, TypeError for every other kind of value (a string or a list takes integer
  indices, the others are not subscriptable).
\<close>

fun py_getitem :: "pyval \<Rightarrow> string \<Rightarrow> 'c error + pyval" where
  "py_getitem (PDict d) key =
     (case map_of d key of None \<Rightarrow> Inl (KeyError key) | Some v \<Rightarrow> Inr v)"
| "py_getitem v key = Inl TypeError"

text \<open>\<open>value.items()\<close>: the pairs of a dict; no other kind of value has the attribute.\<close>

fun py_items :: "pyval \<Rightarrow> 'c error + (string \<times> pyval) list" where
  "py_items (PDict d) = Inr d"
| "py_items v = Inl AttributeError"

subsection \<open>The messages\<close>

text \<open>
  The message classes come from generated protobuf modules that the source imports. The
  records hold the fields the source reads or writes, each with the type the field
  declares. A map field is a map; the values of the \<open>Struct\<close> in \<open>json_payload\<close> are of a
  type \<open>'v\<close> produced by the library's own conversion (a parameter below).

  In LogEntry the fields \<open>text_payload\<close>, \<open>json_payload\<close> and \<open>proto_payload\<close> are the members
  of the oneof \<open>payload\<close>: a write to one of them resets the other two to their default.
\<close>

record monitored_resource_pb =
  mr_type :: string
  mr_labels :: "string \<rightharpoonup> string"

record timestamp_pb =
  ts_seconds :: int
  ts_nanos :: int

record any_pb =
  any_type_url :: string
  any_value :: string

record http_request_pb =
  hr_request_method :: string
  hr_request_url :: string
  hr_status :: int
  hr_referer :: string
  hr_user_agent :: string
  hr_cache_hit :: bool
  hr_request_size :: int
  hr_response_size :: int
  hr_remote_ip :: string

record log_entry_operation_pb =
  op_producer :: string
  op_id :: string
  op_first :: bool
  op_last :: bool

record 'v log_entry_pb =
  le_log_name :: string
  le_resource :: monitored_resource_pb
  le_severity :: int
  le_insert_id :: string
  le_timestamp :: timestamp_pb
  le_labels :: "string \<rightharpoonup> string"
  le_text_payload :: string
  le_json_payload :: "string \<rightharpoonup> 'v"
  le_proto_payload :: any_pb
  le_http_request :: http_request_pb
  le_operation :: log_entry_operation_pb

record log_sink_pb =
  ls_name :: string
  ls_destination :: string
  ls_filter :: string

text \<open>A message built with no argument has every field at its zero value.\<close>

definition MonitoredResource :: monitored_resource_pb where
  "MonitoredResource = \<lparr>mr_type = [], mr_labels = Map.empty\<rparr>"

definition Timestamp :: timestamp_pb where
  "Timestamp = \<lparr>ts_seconds = 0, ts_nanos = 0\<rparr>"

definition Any :: any_pb where
  "Any = \<lparr>any_type_url = [], any_value = []\<rparr>"

definition HttpRequest :: http_request_pb where
  "HttpRequest =
     \<lparr>hr_request_method = [], hr_request_url = [], hr_status = 0, hr_referer = [],
      hr_user_agent = [], hr_cache_hit = False, hr_request_size = 0,
      hr_response_size = 0, hr_remote_ip = []\<rparr>"

definition LogEntryOperation :: log_entry_operation_pb where
  "LogEntryOperation =
     \<lparr>op_producer = [], op_id = [], op_first = False, op_last = False\<rparr>"

definition LogEntry :: "'v log_entry_pb" where
  "LogEntry =
     \<lparr>le_log_name = [], le_resource = MonitoredResource, le_severity = 0,
      le_insert_id = [], le_timestamp = Timestamp, le_labels = Map.empty,
      le_text_payload = [], le_json_payload = Map.empty, le_proto_payload = Any,
      le_http_request = HttpRequest, le_operation = LogEntryOperation\<rparr>"

text \<open>\<open>LogSink(name=..., filter=..., destination=...)\<close>\<close>

definition LogSink :: "string \<Rightarrow> string \<Rightarrow> string \<Rightarrow> log_sink_pb" where
  "LogSink name filter' destination =
     \<lparr>ls_name = name, ls_destination = destination, ls_filter = filter'\<rparr>"

text \<open>
  The truth value of a message object, as in \<open>if entry_pb.http_request:\<close> and
  \<open>if entry_pb.operation:\<close>. A generated message class defines neither \<open>__bool__\<close> nor
  \<open>__len__\<close>, so Python takes every message object as true, the default one included.
\<close>

definition message_truthy :: "'m \<Rightarrow> bool" where
  "message_truthy message = True"

text \<open>
  Assignment to a scalar field. The runtime checks the value against the type the field
  declares and raises TypeError for a value of another kind.
  \<^item> A string field takes a \<open>str\<close>.
  \<^item> An integer field takes an \<open>int\<close>; a \<open>bool\<close> is an \<open>int\<close> in Python and is stored as 1
    or 0. A number outside the field's width is ValueError.
  \<^item> An enum field takes what a 32-bit integer field takes; the number need not be one
    the enumeration names.
  \<^item> A bool field takes a \<open>bool\<close>, or an \<open>int\<close>, stored as its truth value.
\<close>

definition string_field :: "pyval \<Rightarrow> 'c error + string" where
  "string_field v = (case v of PStr s \<Rightarrow> Inr s | _ \<Rightarrow> Inl TypeError)"

definition bool_field :: "pyval \<Rightarrow> 'c error + bool" where
  "bool_field v =
     (case v of
        PBool b \<Rightarrow> Inr b
      | PInt n \<Rightarrow> Inr (n \<noteq> 0)
      | _ \<Rightarrow> Inl TypeError)"

definition int_in_width :: "nat \<Rightarrow> int \<Rightarrow> 'c error + int" where
  "int_in_width w n =
     (if - (2 ^ (w - 1)) \<le> n \<and> n < 2 ^ (w - 1) then Inr n else Inl ValueError)"

definition int_field :: "nat \<Rightarrow> pyval \<Rightarrow> 'c error + int" where
  "int_field w v =
     (case v of
        PInt n \<Rightarrow> int_in_width w n
      | PBool b \<Rightarrow> int_in_width w (if b then 1 else 0)
      | _ \<Rightarrow> Inl TypeError)"

definition enum_field :: "pyval \<Rightarrow> 'c error + int" where
  "enum_field v = int_field 32 v"

subsection \<open>What the module takes from outside\<close>

text \<open>
  \<^item> \<open>LogSeverity_Value\<close>: the enumeration's name-to-value lookup, \<open>None\<close> where
    \<open>LogSeverity.Value\<close> raises ValueError;
  \<^item> \<open>datetime_to_pb_timestamp\<close>: gcloud.\_helpers.\_datetime\_to\_pb\_timestamp;
  \<^item> \<open>Struct_value\<close>: what \<open>json_payload[key] = value\<close> stores for a Python value;
  \<^item> \<open>Parse_dumps\<close>: \<open>Parse(json.dumps(value), message)\<close>, the message after the parse.
\<close>

record ('c, 'v) externals =
  LogSeverity_Value :: "string \<Rightarrow> int option"
  datetime_to_pb_timestamp :: "pyval \<Rightarrow> 'c error + timestamp_pb"
  Struct_value :: "pyval \<Rightarrow> 'c error + 'v"
  Parse_dumps :: "pyval \<Rightarrow> any_pb \<Rightarrow> 'c error + any_pb"

subsection \<open>\_build\_paging\_options\<close>

text \<open>
  \<open>INITIAL_PAGE\<close> of google.gax is a sentinel object, equal to no string. \<open>CallOptions\<close> is
  built from the one keyword \<open>page_token\<close>.
\<close>

datatype page_token = INITIAL_PAGE | PageToken string

record call_options =
  co_page_token :: page_token

definition CallOptions :: "page_token \<Rightarrow> call_options" where
  "CallOptions page_token = \<lparr>co_page_token = page_token\<rparr>"

definition build_paging_options :: "string option \<Rightarrow> call_options" where
  "build_paging_options page_token =
     (let page_token = (case page_token of None \<Rightarrow> INITIAL_PAGE | Some t \<Rightarrow> PageToken t)
      in CallOptions page_token)"

subsection \<open>\_log\_entry\_pb\_to\_mapping and \_log\_sink\_pb\_to\_mapping\<close>

text \<open>
  The values of the mapping built from an entry message are attributes of the message:
  a string, a number or a dict literal is a Python value, the others are the message's
  own sub-objects.
\<close>

datatype 'v pb_attr =
    Py pyval
  | MonitoredResourceMsg monitored_resource_pb
  | TimestampMsg timestamp_pb
  | LabelsMap "string \<rightharpoonup> string"
  | StructMsg "string \<rightharpoonup> 'v"
  | AnyMsg any_pb

definition log_entry_pb_to_mapping :: "'v log_entry_pb \<Rightarrow> (string \<rightharpoonup> 'v pb_attr)" where
  "log_entry_pb_to_mapping entry_pb =
     (let mapping =
        [''log_name'' \<mapsto> Py (PStr (le_log_name entry_pb)),
         ''resource'' \<mapsto> MonitoredResourceMsg (le_resource entry_pb),
         ''severity'' \<mapsto> Py (PInt (le_severity entry_pb)),
         ''insert_id'' \<mapsto> Py (PStr (le_insert_id entry_pb)),
         ''timestamp'' \<mapsto> TimestampMsg (le_timestamp entry_pb),
         ''labels'' \<mapsto> LabelsMap (le_labels entry_pb),
         ''text_payload'' \<mapsto> Py (PStr (le_text_payload entry_pb)),
         ''json_payload'' \<mapsto> StructMsg (le_json_payload entry_pb),
         ''proto_payload'' \<mapsto> AnyMsg (le_proto_payload entry_pb)];
      mapping =
        (if message_truthy (le_http_request entry_pb) then
           (let request = le_http_request entry_pb in
            mapping(''http_request'' \<mapsto> Py (PDict
              [(''request_method'', PStr (hr_request_method request)),
               (''request_url'', PStr (hr_request_url request)),
               (''status'', PInt (hr_status request)),
               (''referer'', PStr (hr_referer request)),
               (''user_agent'', PStr (hr_user_agent request)),
               (''cache_hit'', PBool (hr_cache_hit request)),
               (''request_size'', PInt (hr_request_size request)),
               (''response_size'', PInt (hr_response_size request)),
               (''remote_ip'', PStr (hr_remote_ip request))])))
         else mapping);
      mapping =
        (if message_truthy (le_operation entry_pb) then
           (let operation = le_operation entry_pb in
            mapping(''operation'' \<mapsto> Py (PDict
              [(''producer'', PStr (op_producer operation)),
               (''id'', PStr (op_id operation)),
               (''first'', PBool (op_first operation)),
               (''last'', PBool (op_last operation))])))
         else mapping)
      in mapping)"

definition log_sink_pb_to_mapping :: "log_sink_pb \<Rightarrow> mapping" where
  "log_sink_pb_to_mapping sink_pb =
     [''name'' \<mapsto> PStr (ls_name sink_pb),
      ''destination'' \<mapsto> PStr (ls_destination sink_pb),
      ''filter'' \<mapsto> PStr (ls_filter sink_pb)]"

subsection \<open>\_http\_request\_mapping\_to\_pb and \_log\_operation\_mapping\_to\_pb\<close>

definition optional_request_keys :: "string list" where
  "optional_request_keys =
     [''request_method'', ''request_url'', ''status'', ''referer'', ''user_agent'',
      ''cache_hit'', ''request_size'', ''response_size'', ''remote_ip'']"

text \<open>\<open>setattr(request, key, value)\<close> on an HttpRequest message.\<close>

definition setattr_http_request ::
  "http_request_pb \<Rightarrow> string \<Rightarrow> pyval \<Rightarrow> 'c error + http_request_pb" where
  "setattr_http_request request key v =
     (if key = ''request_method'' then
        and_then (string_field v) (\<lambda>s. Inr (request\<lparr>hr_request_method := s\<rparr>))
      else if key = ''request_url'' then
        and_then (string_field v) (\<lambda>s. Inr (request\<lparr>hr_request_url := s\<rparr>))
      else if key = ''status'' then
        and_then (int_field 32 v) (\<lambda>n. Inr (request\<lparr>hr_status := n\<rparr>))
      else if key = ''referer'' then
        and_then (string_field v) (\<lambda>s. Inr (request\<lparr>hr_referer := s\<rparr>))
      else if key = ''user_agent'' then
        and_then (string_field v) (\<lambda>s. Inr (request\<lparr>hr_user_agent := s\<rparr>))
      else if key = ''cache_hit'' then
        and_then (bool_field v) (\<lambda>b. Inr (request\<lparr>hr_cache_hit := b\<rparr>))
      else if key = ''request_size'' then
        and_then (int_field 64 v) (\<lambda>n. Inr (request\<lparr>hr_request_size := n\<rparr>))
      else if key = ''response_size'' then
        and_then (int_field 64 v) (\<lambda>n. Inr (request\<lparr>hr_response_size := n\<rparr>))
      else if key = ''remote_ip'' then
        and_then (string_field v) (\<lambda>s. Inr (request\<lparr>hr_remote_ip := s\<rparr>))
      else Inl AttributeError)"

text \<open>The loop \<open>for key in optional_request_keys: if key in info: setattr(...)\<close>.\<close>

fun http_request_keys_to_pb ::
  "string list \<Rightarrow> pyval \<Rightarrow> http_request_pb \<Rightarrow> 'c error + http_request_pb" where
  "http_request_keys_to_pb [] info request = Inr request"
| "http_request_keys_to_pb (key # keys) info request =
     (case py_contains info key of
        Inl e \<Rightarrow> Inl e
      | Inr False \<Rightarrow> http_request_keys_to_pb keys info request
      | Inr True \<Rightarrow>
          (case py_getitem info key of
             Inl e \<Rightarrow> Inl e
           | Inr v \<Rightarrow>
               (case setattr_http_request request key v of
                  Inl e \<Rightarrow> Inl e
                | Inr request' \<Rightarrow> http_request_keys_to_pb keys info request')))"

definition http_request_mapping_to_pb ::
  "pyval \<Rightarrow> http_request_pb \<Rightarrow> 'c error + http_request_pb" where
  "http_request_mapping_to_pb info request =
     http_request_keys_to_pb optional_request_keys info request"

definition log_operation_mapping_to_pb ::
  "pyval \<Rightarrow> log_entry_operation_pb \<Rightarrow> 'c error + log_entry_operation_pb" where
  "log_operation_mapping_to_pb info operation =
     and_then (py_getitem info ''producer'') (\<lambda>v.
     and_then (string_field v) (\<lambda>s.
     let operation = operation\<lparr>op_producer := s\<rparr> in
     and_then (py_getitem info ''id'') (\<lambda>v.
     and_then (string_field v) (\<lambda>s.
     let operation = operation\<lparr>op_id := s\<rparr> in
     and_then (py_contains info ''first'') (\<lambda>present.
     and_then
       (if present then
          and_then (py_getitem info ''first'') (\<lambda>v.
          and_then (bool_field v) (\<lambda>b. Inr (operation\<lparr>op_first := b\<rparr>)))
        else Inr operation) (\<lambda>operation.
     and_then (py_contains info ''last'') (\<lambda>present.
     if present then
       and_then (py_getitem info ''last'') (\<lambda>v.
       and_then (bool_field v) (\<lambda>b. Inr (operation\<lparr>op_last := b\<rparr>)))
     else Inr operation)))))))"

subsection \<open>\_log\_entry\_mapping\_to\_pb\<close>

definition optional_scalar_keys :: "string list" where
  "optional_scalar_keys = [''log_name'', ''insert_id'', ''text_payload'']"

text \<open>\<open>setattr(entry_pb, key, value)\<close> for the three string fields of the loop.\<close>

definition setattr_log_entry ::
  "'v log_entry_pb \<Rightarrow> string \<Rightarrow> pyval \<Rightarrow> 'c error + 'v log_entry_pb" where
  "setattr_log_entry entry_pb key v =
     (if key = ''log_name'' then
        and_then (string_field v) (\<lambda>s. Inr (entry_pb\<lparr>le_log_name := s\<rparr>))
      else if key = ''insert_id'' then
        and_then (string_field v) (\<lambda>s. Inr (entry_pb\<lparr>le_insert_id := s\<rparr>))
      else if key = ''text_payload'' then
        and_then (string_field v) (\<lambda>s.
          Inr (entry_pb\<lparr>le_text_payload := s, le_json_payload := Map.empty,
                        le_proto_payload := Any\<rparr>))
      else Inl AttributeError)"

text \<open>\<open>for key in optional_scalar_keys: if key in mapping: setattr(...)\<close>\<close>

fun scalar_keys_to_pb ::
  "string list \<Rightarrow> mapping \<Rightarrow> 'v log_entry_pb \<Rightarrow> 'c error + 'v log_entry_pb" where
  "scalar_keys_to_pb [] mapping entry_pb = Inr entry_pb"
| "scalar_keys_to_pb (key # keys) mapping entry_pb =
     (case mapping key of
        None \<Rightarrow> scalar_keys_to_pb keys mapping entry_pb
      | Some v \<Rightarrow>
          (case setattr_log_entry entry_pb key v of
             Inl e \<Rightarrow> Inl e
           | Inr entry_pb' \<Rightarrow> scalar_keys_to_pb keys mapping entry_pb'))"

text \<open>\<open>if 'resource' in mapping: entry_pb.resource.type = mapping['resource']['type']\<close>\<close>

definition resource_to_pb ::
  "mapping \<Rightarrow> 'v log_entry_pb \<Rightarrow> 'c error + 'v log_entry_pb" where
  "resource_to_pb mapping entry_pb =
     (case mapping ''resource'' of
        None \<Rightarrow> Inr entry_pb
      | Some resource \<Rightarrow>
          and_then (py_getitem resource ''type'') (\<lambda>v.
          and_then (string_field v) (\<lambda>s.
          Inr (entry_pb\<lparr>le_resource := (le_resource entry_pb)\<lparr>mr_type := s\<rparr>\<rparr>))))"

text \<open>
  The severity block: a \<open>str\<close> goes through \<open>LogSeverity.Value\<close>, any other value is
  assigned as it is.
\<close>

definition severity_to_pb ::
  "('c, 'v) externals \<Rightarrow> mapping \<Rightarrow> 'v log_entry_pb \<Rightarrow> 'c error + 'v log_entry_pb" where
  "severity_to_pb ext mapping entry_pb =
     (case mapping ''severity'' of
        None \<Rightarrow> Inr entry_pb
      | Some severity \<Rightarrow>
          and_then
            (case severity of
               PStr name \<Rightarrow>
                 (case LogSeverity_Value ext name of
                    None \<Rightarrow> Inl ValueError
                  | Some n \<Rightarrow> Inr (PInt n))
             | _ \<Rightarrow> Inr severity) (\<lambda>severity.
          and_then (enum_field severity) (\<lambda>n.
          Inr (entry_pb\<lparr>le_severity := n\<rparr>))))"

definition timestamp_to_pb ::
  "('c, 'v) externals \<Rightarrow> mapping \<Rightarrow> 'v log_entry_pb \<Rightarrow> 'c error + 'v log_entry_pb" where
  "timestamp_to_pb ext mapping entry_pb =
     (case mapping ''timestamp'' of
        None \<Rightarrow> Inr entry_pb
      | Some v \<Rightarrow>
          and_then (datetime_to_pb_timestamp ext v) (\<lambda>timestamp.
          Inr (entry_pb\<lparr>le_timestamp := timestamp\<rparr>)))"

text \<open>\<open>for key, value in mapping['labels'].items(): entry_pb.labels[key] = value\<close>\<close>

fun label_items_to_pb ::
  "(string \<times> pyval) list \<Rightarrow> 'v log_entry_pb \<Rightarrow> 'c error + 'v log_entry_pb" where
  "label_items_to_pb [] entry_pb = Inr entry_pb"
| "label_items_to_pb ((key, value) # items) entry_pb =
     (case string_field value of
        Inl e \<Rightarrow> Inl e
      | Inr s \<Rightarrow>
          label_items_to_pb items (entry_pb\<lparr>le_labels := (le_labels entry_pb)(key \<mapsto> s)\<rparr>))"

definition labels_to_pb ::
  "mapping \<Rightarrow> 'v log_entry_pb \<Rightarrow> 'c error + 'v log_entry_pb" where
  "labels_to_pb mapping entry_pb =
     (case mapping ''labels'' of
        None \<Rightarrow> Inr entry_pb
      | Some labels \<Rightarrow>
          and_then (py_items labels) (\<lambda>items. label_items_to_pb items entry_pb))"

text \<open>
  \<open>for key, value in mapping['json_payload'].items(): entry_pb.json_payload[key] = value\<close>
\<close>

fun json_items_to_pb ::
  "('c, 'v) externals \<Rightarrow> (string \<times> pyval) list \<Rightarrow> 'v log_entry_pb \<Rightarrow>
     'c error + 'v log_entry_pb" where
  "json_items_to_pb ext [] entry_pb = Inr entry_pb"
| "json_items_to_pb ext ((key, value) # items) entry_pb =
     (case Struct_value ext value of
        Inl e \<Rightarrow> Inl e
      | Inr x \<Rightarrow>
          json_items_to_pb ext items
            (entry_pb\<lparr>le_json_payload := (le_json_payload entry_pb)(key \<mapsto> x),
                       le_text_payload := [], le_proto_payload := Any\<rparr>))"

definition json_payload_to_pb ::
  "('c, 'v) externals \<Rightarrow> mapping \<Rightarrow> 'v log_entry_pb \<Rightarrow> 'c error + 'v log_entry_pb" where
  "json_payload_to_pb ext mapping entry_pb =
     (case mapping ''json_payload'' of
        None \<Rightarrow> Inr entry_pb
      | Some payload \<Rightarrow>
          and_then (py_items payload) (\<lambda>items. json_items_to_pb ext items entry_pb))"

text \<open>
  \<open>Parse\<close> writes into the sub-message \<open>entry_pb.proto_payload\<close>. A parse that leaves the
  sub-message as it was has written nothing, and the payload set so far stays.
\<close>

definition proto_payload_to_pb ::
  "('c, 'v) externals \<Rightarrow> mapping \<Rightarrow> 'v log_entry_pb \<Rightarrow> 'c error + 'v log_entry_pb" where
  "proto_payload_to_pb ext mapping entry_pb =
     (case mapping ''proto_payload'' of
        None \<Rightarrow> Inr entry_pb
      | Some v \<Rightarrow>
          and_then (Parse_dumps ext v (le_proto_payload entry_pb)) (\<lambda>payload.
          Inr (if payload = le_proto_payload entry_pb then entry_pb
               else entry_pb\<lparr>le_proto_payload := payload, le_text_payload := [],
                             le_json_payload := Map.empty\<rparr>)))"

definition http_request_to_pb ::
  "mapping \<Rightarrow> 'v log_entry_pb \<Rightarrow> 'c error + 'v log_entry_pb" where
  "http_request_to_pb mapping entry_pb =
     (case mapping ''http_request'' of
        None \<Rightarrow> Inr entry_pb
      | Some info \<Rightarrow>
          and_then (http_request_mapping_to_pb info (le_http_request entry_pb)) (\<lambda>request.
          Inr (entry_pb\<lparr>le_http_request := request\<rparr>)))"

definition operation_to_pb ::
  "mapping \<Rightarrow> 'v log_entry_pb \<Rightarrow> 'c error + 'v log_entry_pb" where
  "operation_to_pb mapping entry_pb =
     (case mapping ''operation'' of
        None \<Rightarrow> Inr entry_pb
      | Some info \<Rightarrow>
          and_then (log_operation_mapping_to_pb info (le_operation entry_pb)) (\<lambda>operation.
          Inr (entry_pb\<lparr>le_operation := operation\<rparr>)))"

text \<open>The function: the blocks above, in the order of the source, on a fresh LogEntry.\<close>

definition log_entry_mapping_to_pb ::
  "('c, 'v) externals \<Rightarrow> mapping \<Rightarrow> 'c error + 'v log_entry_pb" where
  "log_entry_mapping_to_pb ext mapping =
     (let entry_pb = LogEntry in
      and_then (scalar_keys_to_pb optional_scalar_keys mapping entry_pb) (\<lambda>entry_pb.
      and_then (resource_to_pb mapping entry_pb) (\<lambda>entry_pb.
      and_then (severity_to_pb ext mapping entry_pb) (\<lambda>entry_pb.
      and_then (timestamp_to_pb ext mapping entry_pb) (\<lambda>entry_pb.
      and_then (labels_to_pb mapping entry_pb) (\<lambda>entry_pb.
      and_then (json_payload_to_pb ext mapping entry_pb) (\<lambda>entry_pb.
      and_then (proto_payload_to_pb ext mapping entry_pb) (\<lambda>entry_pb.
      and_then (http_request_to_pb mapping entry_pb) (\<lambda>entry_pb.
      operation_to_pb mapping entry_pb)))))))))"

subsection \<open>\_LoggingAPI\<close>

text \<open>
  The generated client is an object with one method per RPC. A stub answers a call with
  its reply or with the exception it raises. The calls a method issues are recorded in a
  trace, oldest first, which the method takes and returns.
\<close>

record ('c, 'v) logging_gax_api =
  write_log_entries ::
    "'v log_entry_pb list \<Rightarrow> pyval \<Rightarrow> pyval \<Rightarrow> pyval \<Rightarrow> bool \<Rightarrow> call_options option \<Rightarrow>
       'c error + unit"
  delete_log :: "string \<Rightarrow> call_options option \<Rightarrow> 'c error + unit"

datatype 'v logging_call =
    WriteLogEntries "'v log_entry_pb list" pyval pyval pyval bool "call_options option"
  | DeleteLog string "call_options option"



definition logger_delete ::
  "('c, 'v) logging_gax_api \<Rightarrow> string \<Rightarrow> string \<Rightarrow>
     'v logging_call list \<Rightarrow> ('c error + unit) \<times> 'v logging_call list" where
  "logger_delete gax_api project logger_name trace =
     (let options = None;
          path = ''projects/'' @ project @ ''/logs/'' @ logger_name
      in (delete_log gax_api path options, trace @ [DeleteLog path options]))"

subsection \<open>\_SinksAPI\<close>

record 'c config_gax_api =
  create_sink :: "string \<Rightarrow> log_sink_pb \<Rightarrow> call_options option \<Rightarrow> 'c error + log_sink_pb"
  get_sink :: "string \<Rightarrow> call_options option \<Rightarrow> 'c error + log_sink_pb"
  update_sink :: "string \<Rightarrow> log_sink_pb \<Rightarrow> call_options option \<Rightarrow> 'c error + log_sink_pb"
  delete_sink :: "string \<Rightarrow> call_options option \<Rightarrow> 'c error + unit"

datatype config_call =
    CreateSink string log_sink_pb "call_options option"
  | GetSink string "call_options option"
  | UpdateSink string log_sink_pb "call_options option"
  | DeleteSink string "call_options option"

text \<open>
  The handler \<open>except GaxError as exc\<close> of the four methods: it catches the transport
  error only, raises \<open>translated\<close> when the code of its cause is \<open>code\<close>, and re-raises it
  otherwise. Any other exception passes.
\<close>

definition except_GaxError ::
  "('c \<Rightarrow> status_code option) \<Rightarrow> status_code \<Rightarrow> 'c error \<Rightarrow> 'c error \<Rightarrow> 'c error" where
  "except_GaxError exc_to_code code translated exc =
     (case exc of
        GaxError cause \<Rightarrow>
          if exc_to_code cause = Some code then translated else GaxError cause
      | _ \<Rightarrow> exc)"

definition sink_create ::
  "('c \<Rightarrow> status_code option) \<Rightarrow> 'c config_gax_api \<Rightarrow> string \<Rightarrow> string \<Rightarrow> string \<Rightarrow> string \<Rightarrow>
     config_call list \<Rightarrow> ('c error + unit) \<times> config_call list" where
  "sink_create exc_to_code gax_api project sink_name filter' destination trace =
     (let options = None;
          parent = ''projects/'' @ project;
          path = ''projects/'' @ project @ ''/sinks/'' @ sink_name;
          sink_pb = LogSink path filter' destination
      in (case create_sink gax_api parent sink_pb options of
            Inl exc \<Rightarrow> Inl (except_GaxError exc_to_code FAILED_PRECONDITION (Conflict path) exc)
          | Inr _ \<Rightarrow> Inr (),
          trace @ [CreateSink parent sink_pb options]))"

definition sink_get ::
  "('c \<Rightarrow> status_code option) \<Rightarrow> 'c config_gax_api \<Rightarrow> string \<Rightarrow> string \<Rightarrow>
     config_call list \<Rightarrow> ('c error + mapping) \<times> config_call list" where
  "sink_get exc_to_code gax_api project sink_name trace =
     (let options = None;
          path = ''projects/'' @ project @ ''/sinks/'' @ sink_name
      in (case get_sink gax_api path options of
            Inl exc \<Rightarrow> Inl (except_GaxError exc_to_code NOT_FOUND (NotFound path) exc)
          | Inr sink_pb \<Rightarrow> Inr (log_sink_pb_to_mapping sink_pb),
          trace @ [GetSink path options]))"

definition sink_update ::
  "('c \<Rightarrow> status_code option) \<Rightarrow> 'c config_gax_api \<Rightarrow> string \<Rightarrow> string \<Rightarrow> string \<Rightarrow> string \<Rightarrow>
     config_call list \<Rightarrow> ('c error + mapping) \<times> config_call list" where
  "sink_update exc_to_code gax_api project sink_name filter' destination trace =
     (let options = None;
          path = ''projects/'' @ project @ ''/sinks/'' @ sink_name;
          sink_pb = LogSink path filter' destination
      in (case update_sink gax_api path sink_pb options of
            Inl exc \<Rightarrow> Inl (except_GaxError exc_to_code NOT_FOUND (NotFound path) exc)
          | Inr _ \<Rightarrow> Inr (log_sink_pb_to_mapping sink_pb),
          trace @ [UpdateSink path sink_pb options]))"

definition sink_delete ::
  "('c \<Rightarrow> status_code option) \<Rightarrow> 'c config_gax_api \<Rightarrow> string \<Rightarrow> string \<Rightarrow>
     config_call list \<Rightarrow> ('c error + unit) \<times> config_call list" where
  "sink_delete exc_to_code gax_api project sink_name trace =
     (let options = None;
          path = ''projects/'' @ project @ ''/sinks/'' @ sink_name
      in (case delete_sink gax_api path options of
            Inl exc \<Rightarrow> Inl (except_GaxError exc_to_code NOT_FOUND (NotFound path) exc)
          | Inr _ \<Rightarrow> Inr (),
          trace @ [DeleteSink path options]))"

subsection \<open>Instances for evaluation\<close>

text \<open>A client whose every RPC gives the same answer.\<close>

definition constant_config_api ::
  "'c error + log_sink_pb \<Rightarrow> 'c error + unit \<Rightarrow> 'c config_gax_api" where
  "constant_config_api sink_reply unit_reply =
     \<lparr>create_sink = (\<lambda>parent sink_pb options. sink_reply),
      get_sink = (\<lambda>path options. sink_reply),
      update_sink = (\<lambda>path sink_pb options. sink_reply),
      delete_sink = (\<lambda>path options. unit_reply)\<rparr>"


text \<open>
  An instance of what the module takes from outside: the names and numbers of
  google.logging.type.LogSeverity, a timestamp helper that splits a count of microseconds,
  a Struct that keeps the Python value, and a parser that rejects every payload.
\<close>

definition sample_externals :: "('c, pyval) externals" where
  "sample_externals =
     \<lparr>LogSeverity_Value =
        map_of [(''DEFAULT'', 0), (''DEBUG'', 100), (''INFO'', 200), (''NOTICE'', 300),
                (''WARNING'', 400), (''ERROR'', 500), (''CRITICAL'', 600), (''ALERT'', 700),
                (''EMERGENCY'', 800)],
      datetime_to_pb_timestamp =
        (\<lambda>v. case v of
               PDatetime us \<Rightarrow>
                 Inr \<lparr>ts_seconds = us div 1000000, ts_nanos = (us mod 1000000) * 1000\<rparr>
             | _ \<Rightarrow> Inl AttributeError),
      Struct_value = (\<lambda>v. Inr v),
      Parse_dumps = (\<lambda>v message. Inl (Raised ''ParseError''))\<rparr>"

section \<open>Properties\<close>

subsection \<open>Paging options\<close>

text \<open>
  C9: with no token the builder gives the options whose page token is the sentinel
  \<open>INITIAL_PAGE\<close>, which is no string (the empty one included); with a token it gives the
  options carrying that token, so \<open>"abc"\<close> is carried as \<open>"abc"\<close>.
\<close>

theorem build_paging_options_token:
  "build_paging_options None = CallOptions INITIAL_PAGE
   \<and> (\<forall>s. co_page_token (build_paging_options None) \<noteq> PageToken s)
   \<and> co_page_token (build_paging_options (Some t)) = PageToken t
   \<and> build_paging_options (Some ''abc'') = CallOptions (PageToken ''abc'')"
  by (simp add: build_paging_options_def CallOptions_def)

subsection \<open>Sinks\<close>

text \<open>
  C1: \<open>sink_create\<close> issues \<open>create_sink\<close> under \<open>projects/<project>\<close> with a message named
  \<open>projects/<project>/sinks/<sink_name>\<close>. When the stub raises a GaxError whose cause has
  the code FAILED\_PRECONDITION, the method raises Conflict with that path; any other
  exception of the stub is the exception the method raises.
\<close>

theorem sink_create_error_mapping:
  "snd (sink_create exc_to_code gax_api project sink_name filter' destination trace)
     = trace @ [CreateSink (''projects/'' @ project)
                  (LogSink (''projects/'' @ project @ ''/sinks/'' @ sink_name) filter' destination) None]
   \<and> (\<forall>cause.
        create_sink gax_api (''projects/'' @ project)
          (LogSink (''projects/'' @ project @ ''/sinks/'' @ sink_name) filter' destination) None
          = Inl (GaxError cause)
        \<and> exc_to_code cause = Some FAILED_PRECONDITION
        \<longrightarrow> fst (sink_create exc_to_code gax_api project sink_name filter' destination trace)
            = Inl (Conflict (''projects/'' @ project @ ''/sinks/'' @ sink_name)))
   \<and> (\<forall>exc.
        create_sink gax_api (''projects/'' @ project)
          (LogSink (''projects/'' @ project @ ''/sinks/'' @ sink_name) filter' destination) None
          = Inl exc
        \<and> (\<forall>cause. exc = GaxError cause \<longrightarrow> exc_to_code cause \<noteq> Some FAILED_PRECONDITION)
        \<longrightarrow> fst (sink_create exc_to_code gax_api project sink_name filter' destination trace)
            = Inl exc)"
  by (auto simp: sink_create_def except_GaxError_def Let_def split: error.splits)

theorem sink_create_error_mapping_witness:
  "fst (sink_create (\<lambda>c. c) (constant_config_api (Inl (GaxError (Some FAILED_PRECONDITION))) (Inr ()))
          ''p1'' ''s1'' ''f'' ''d'' [])
     = Inl (Conflict ''projects/p1/sinks/s1'')
   \<and> fst (sink_create (\<lambda>c. c) (constant_config_api (Inl (GaxError (Some UNAVAILABLE))) (Inr ()))
          ''p1'' ''s1'' ''f'' ''d'' [])
     = Inl (GaxError (Some UNAVAILABLE))
   \<and> snd (sink_create (\<lambda>c. c) (constant_config_api (Inl (GaxError (Some FAILED_PRECONDITION))) (Inr ()))
          ''p1'' ''s1'' ''f'' ''d'' [])
     = [CreateSink ''projects/p1'' (LogSink ''projects/p1/sinks/s1'' ''f'' ''d'') None]"
proof -
  let ?conflict = "constant_config_api (Inl (GaxError (Some FAILED_PRECONDITION))) (Inr ())"
  let ?down = "constant_config_api (Inl (GaxError (Some UNAVAILABLE))) (Inr ())"
  note T1 = sink_create_error_mapping [of "\<lambda>c. c" ?conflict "''p1''" "''s1''" "''f''" "''d''" "[]"]
  note T2 = sink_create_error_mapping [of "\<lambda>c. c" ?down "''p1''" "''s1''" "''f''" "''d''" "[]"]
  have r1: "create_sink ?conflict (''projects/'' @ ''p1'')
              (LogSink (''projects/'' @ ''p1'' @ ''/sinks/'' @ ''s1'') ''f'' ''d'') None
            = Inl (GaxError (Some FAILED_PRECONDITION))"
    by (simp add: constant_config_api_def)
  have r2: "create_sink ?down (''projects/'' @ ''p1'')
              (LogSink (''projects/'' @ ''p1'' @ ''/sinks/'' @ ''s1'') ''f'' ''d'') None
            = Inl (GaxError (Some UNAVAILABLE))"
    by (simp add: constant_config_api_def)
  have a: "fst (sink_create (\<lambda>c. c) ?conflict ''p1'' ''s1'' ''f'' ''d'' [])
             = Inl (Conflict (''projects/'' @ ''p1'' @ ''/sinks/'' @ ''s1''))"
    using T1 r1 by blast
  have b: "fst (sink_create (\<lambda>c. c) ?down ''p1'' ''s1'' ''f'' ''d'' [])
             = Inl (GaxError (Some UNAVAILABLE))"
    using T2 r2 by blast
  have c: "snd (sink_create (\<lambda>c. c) ?conflict ''p1'' ''s1'' ''f'' ''d'' [])
             = [] @ [CreateSink (''projects/'' @ ''p1'')
                       (LogSink (''projects/'' @ ''p1'' @ ''/sinks/'' @ ''s1'') ''f'' ''d'') None]"
    using T1 by blast
  show ?thesis using a b c by simp
qed

text \<open>
  C2: \<open>sink_get\<close>, \<open>sink_update\<close> and \<open>sink_delete\<close> each issue their RPC on the path
  \<open>projects/<project>/sinks/<sink_name>\<close>. When the stub raises a GaxError whose cause has
  the code NOT\_FOUND, the method raises NotFound with that path; any other exception of
  the stub is the exception the method raises.
\<close>

theorem sink_get_update_delete_error_mapping:
  "snd (sink_get exc_to_code gax_api project sink_name trace)
     = trace @ [GetSink (''projects/'' @ project @ ''/sinks/'' @ sink_name) None]
   \<and> snd (sink_update exc_to_code gax_api project sink_name filter' destination trace)
     = trace @ [UpdateSink (''projects/'' @ project @ ''/sinks/'' @ sink_name)
                  (LogSink (''projects/'' @ project @ ''/sinks/'' @ sink_name) filter' destination) None]
   \<and> snd (sink_delete exc_to_code gax_api project sink_name trace)
     = trace @ [DeleteSink (''projects/'' @ project @ ''/sinks/'' @ sink_name) None]
   \<and> (\<forall>exc.
        get_sink gax_api (''projects/'' @ project @ ''/sinks/'' @ sink_name) None = Inl exc
        \<longrightarrow> fst (sink_get exc_to_code gax_api project sink_name trace)
            = (if \<exists>cause. exc = GaxError cause \<and> exc_to_code cause = Some NOT_FOUND
               then Inl (NotFound (''projects/'' @ project @ ''/sinks/'' @ sink_name))
               else Inl exc))
   \<and> (\<forall>exc.
        update_sink gax_api (''projects/'' @ project @ ''/sinks/'' @ sink_name)
          (LogSink (''projects/'' @ project @ ''/sinks/'' @ sink_name) filter' destination) None
          = Inl exc
        \<longrightarrow> fst (sink_update exc_to_code gax_api project sink_name filter' destination trace)
            = (if \<exists>cause. exc = GaxError cause \<and> exc_to_code cause = Some NOT_FOUND
               then Inl (NotFound (''projects/'' @ project @ ''/sinks/'' @ sink_name))
               else Inl exc))
   \<and> (\<forall>exc.
        delete_sink gax_api (''projects/'' @ project @ ''/sinks/'' @ sink_name) None = Inl exc
        \<longrightarrow> fst (sink_delete exc_to_code gax_api project sink_name trace)
            = (if \<exists>cause. exc = GaxError cause \<and> exc_to_code cause = Some NOT_FOUND
               then Inl (NotFound (''projects/'' @ project @ ''/sinks/'' @ sink_name))
               else Inl exc))"
  by (auto simp: sink_get_def sink_update_def sink_delete_def except_GaxError_def Let_def
           split: error.splits)

theorem sink_get_update_delete_error_mapping_witness:
  "fst (sink_get (\<lambda>c. c) (constant_config_api (Inl (GaxError (Some NOT_FOUND))) (Inl (GaxError (Some NOT_FOUND))))
          ''p1'' ''s1'' [])
     = Inl (NotFound ''projects/p1/sinks/s1'')
   \<and> fst (sink_update (\<lambda>c. c) (constant_config_api (Inl (GaxError (Some NOT_FOUND))) (Inl (GaxError (Some NOT_FOUND))))
          ''p1'' ''s1'' ''f'' ''d'' [])
     = Inl (NotFound ''projects/p1/sinks/s1'')
   \<and> fst (sink_delete (\<lambda>c. c) (constant_config_api (Inl (GaxError (Some NOT_FOUND))) (Inl (GaxError (Some NOT_FOUND))))
          ''p1'' ''s1'' [])
     = Inl (NotFound ''projects/p1/sinks/s1'')
   \<and> fst (sink_get (\<lambda>c. c) (constant_config_api (Inl (GaxError (Some UNAVAILABLE))) (Inl (Raised ''RuntimeError'')))
          ''p1'' ''s1'' [])
     = Inl (GaxError (Some UNAVAILABLE))
   \<and> fst (sink_update (\<lambda>c. c) (constant_config_api (Inl (GaxError (Some UNAVAILABLE))) (Inl (Raised ''RuntimeError'')))
          ''p1'' ''s1'' ''f'' ''d'' [])
     = Inl (GaxError (Some UNAVAILABLE))
   \<and> fst (sink_delete (\<lambda>c. c) (constant_config_api (Inl (GaxError (Some UNAVAILABLE))) (Inl (Raised ''RuntimeError'')))
          ''p1'' ''s1'' [])
     = Inl (Raised ''RuntimeError'')"
proof -
  let ?missing = "constant_config_api (Inl (GaxError (Some NOT_FOUND))) (Inl (GaxError (Some NOT_FOUND)))"
  let ?down = "constant_config_api (Inl (GaxError (Some UNAVAILABLE))) (Inl (Raised ''RuntimeError''))"
  note T1 = sink_get_update_delete_error_mapping
              [of "\<lambda>c. c" ?missing "''p1''" "''s1''" "[]" "''f''" "''d''"]
  note T2 = sink_get_update_delete_error_mapping
              [of "\<lambda>c. c" ?down "''p1''" "''s1''" "[]" "''f''" "''d''"]
  have g1: "get_sink ?missing (''projects/'' @ ''p1'' @ ''/sinks/'' @ ''s1'') None
              = Inl (GaxError (Some NOT_FOUND))"
    and u1: "update_sink ?missing (''projects/'' @ ''p1'' @ ''/sinks/'' @ ''s1'')
               (LogSink (''projects/'' @ ''p1'' @ ''/sinks/'' @ ''s1'') ''f'' ''d'') None
              = Inl (GaxError (Some NOT_FOUND))"
    and d1: "delete_sink ?missing (''projects/'' @ ''p1'' @ ''/sinks/'' @ ''s1'') None
              = Inl (GaxError (Some NOT_FOUND))"
    and g2: "get_sink ?down (''projects/'' @ ''p1'' @ ''/sinks/'' @ ''s1'') None
              = Inl (GaxError (Some UNAVAILABLE))"
    and u2: "update_sink ?down (''projects/'' @ ''p1'' @ ''/sinks/'' @ ''s1'')
               (LogSink (''projects/'' @ ''p1'' @ ''/sinks/'' @ ''s1'') ''f'' ''d'') None
              = Inl (GaxError (Some UNAVAILABLE))"
    and d2: "delete_sink ?down (''projects/'' @ ''p1'' @ ''/sinks/'' @ ''s1'') None
              = Inl (Raised ''RuntimeError'')"
    by (simp_all add: constant_config_api_def)
  have a: "fst (sink_get (\<lambda>c. c) ?missing ''p1'' ''s1'' [])
             = Inl (NotFound (''projects/'' @ ''p1'' @ ''/sinks/'' @ ''s1''))"
    using T1 g1 by simp
  have b: "fst (sink_update (\<lambda>c. c) ?missing ''p1'' ''s1'' ''f'' ''d'' [])
             = Inl (NotFound (''projects/'' @ ''p1'' @ ''/sinks/'' @ ''s1''))"
    using T1 u1 by simp
  have c: "fst (sink_delete (\<lambda>c. c) ?missing ''p1'' ''s1'' [])
             = Inl (NotFound (''projects/'' @ ''p1'' @ ''/sinks/'' @ ''s1''))"
    using T1 d1 by simp
  have d: "fst (sink_get (\<lambda>c. c) ?down ''p1'' ''s1'' []) = Inl (GaxError (Some UNAVAILABLE))"
    using T2 g2 by simp
  have e: "fst (sink_update (\<lambda>c. c) ?down ''p1'' ''s1'' ''f'' ''d'' [])
             = Inl (GaxError (Some UNAVAILABLE))"
    using T2 u2 by simp
  have f: "fst (sink_delete (\<lambda>c. c) ?down ''p1'' ''s1'' []) = Inl (Raised ''RuntimeError'')"
    using T2 d2 by simp
  show ?thesis using a b c d e f by simp
qed

text \<open>
  C5: for a sink mapping with string values under \<open>name\<close>, \<open>destination\<close> and \<open>filter\<close>, the
  message built from the three values converts back to the mapping restricted to the
  three keys, and the result has these keys only.
\<close>

theorem sink_mapping_round_trip:
  assumes "m ''name'' = Some (PStr name)"
    and "m ''destination'' = Some (PStr destination)"
    and "m ''filter'' = Some (PStr filter')"
  shows "log_sink_pb_to_mapping (LogSink name filter' destination)
           = m |` {''name'', ''destination'', ''filter''}
         \<and> dom (log_sink_pb_to_mapping (LogSink name filter' destination))
           = {''name'', ''destination'', ''filter''}"
proof
  show "log_sink_pb_to_mapping (LogSink name filter' destination)
          = m |` {''name'', ''destination'', ''filter''}"
  proof
    fix k
    show "log_sink_pb_to_mapping (LogSink name filter' destination) k
            = (m |` {''name'', ''destination'', ''filter''}) k"
      using assms by (simp add: log_sink_pb_to_mapping_def LogSink_def restrict_map_def)
  qed
  show "dom (log_sink_pb_to_mapping (LogSink name filter' destination))
          = {''name'', ''destination'', ''filter''}"
    by (auto simp: log_sink_pb_to_mapping_def)
qed

theorem sink_mapping_round_trip_witness:
  "log_sink_pb_to_mapping (LogSink ''projects/p1/sinks/s1'' ''severity>=ERROR'' ''storage.googleapis.com/b'')
     = [''name'' \<mapsto> PStr ''projects/p1/sinks/s1'',
        ''destination'' \<mapsto> PStr ''storage.googleapis.com/b'',
        ''filter'' \<mapsto> PStr ''severity>=ERROR'',
        ''extra'' \<mapsto> PInt 1] |` {''name'', ''destination'', ''filter''}
   \<and> dom (log_sink_pb_to_mapping (LogSink ''projects/p1/sinks/s1'' ''severity>=ERROR'' ''storage.googleapis.com/b''))
     = {''name'', ''destination'', ''filter''}"
  using sink_mapping_round_trip
    [of "[''name'' \<mapsto> PStr ''projects/p1/sinks/s1'',
        ''destination'' \<mapsto> PStr ''storage.googleapis.com/b'',
        ''filter'' \<mapsto> PStr ''severity>=ERROR'',
        ''extra'' \<mapsto> PInt 1]" "''projects/p1/sinks/s1''" "''storage.googleapis.com/b''" "''severity>=ERROR''"]
  by auto

text \<open>
  C8: when \<open>update_sink\<close> returns, whatever its reply, \<open>sink_update\<close> returns the mapping of
  the message it sent: the path under \<open>name\<close>, and the filter and the destination given.
\<close>

theorem sink_update_returns_request:
  assumes "update_sink gax_api (''projects/'' @ project @ ''/sinks/'' @ sink_name)
             (LogSink (''projects/'' @ project @ ''/sinks/'' @ sink_name) filter' destination) None
           = Inr reply"
  shows "fst (sink_update exc_to_code gax_api project sink_name filter' destination trace)
         = Inr [''name'' \<mapsto> PStr (''projects/'' @ project @ ''/sinks/'' @ sink_name),
                ''destination'' \<mapsto> PStr destination,
                ''filter'' \<mapsto> PStr filter']"
  using assms by (simp add: sink_update_def log_sink_pb_to_mapping_def LogSink_def Let_def)

theorem sink_update_returns_request_witness:
  "fst (sink_update (\<lambda>c. c)
          (constant_config_api (Inr (LogSink ''server-name'' ''server-filter'' ''server-destination'')) (Inr ()))
          ''p1'' ''s1'' ''severity>=ERROR'' ''storage.googleapis.com/b'' [])
   = Inr [''name'' \<mapsto> PStr ''projects/p1/sinks/s1'',
          ''destination'' \<mapsto> PStr ''storage.googleapis.com/b'',
          ''filter'' \<mapsto> PStr ''severity>=ERROR'']"
  using sink_update_returns_request
    [of "constant_config_api (Inr (LogSink ''server-name'' ''server-filter'' ''server-destination'')) (Inr ())"
        "''p1''" "''s1''" "''severity>=ERROR''" "''storage.googleapis.com/b''"
        "LogSink ''server-name'' ''server-filter'' ''server-destination''" "\<lambda>c. c" "[]"]
  by (simp add: constant_config_api_def)

subsection \<open>Entry message to mapping\<close>

text \<open>
  C3: the mapping built from an entry message has the nine keys \<open>log_name\<close>, \<open>resource\<close>,
  \<open>severity\<close>, \<open>insert_id\<close>, \<open>timestamp\<close>, \<open>labels\<close>, \<open>text_payload\<close>, \<open>json_payload\<close> and
  \<open>proto_payload\<close> whatever the message. The spec has the keys \<open>http_request\<close> and
  \<open>operation\<close> only for a sub-message that is not the default one. The code tests the
  message object itself, which is always true: both keys are there for every message, and
  so for the default \<open>LogEntry()\<close>, whose two sub-messages are the default ones.
\<close>

theorem log_entry_pb_to_mapping_default_keys:
  "dom (log_entry_pb_to_mapping entry_pb)
     = {''log_name'', ''resource'', ''severity'', ''insert_id'', ''timestamp'', ''labels'',
        ''text_payload'', ''json_payload'', ''proto_payload'', ''http_request'', ''operation''}
   \<and> ''http_request'' \<in> dom (log_entry_pb_to_mapping LogEntry)
   \<and> ''operation'' \<in> dom (log_entry_pb_to_mapping LogEntry)
   \<and> le_http_request LogEntry = HttpRequest
   \<and> le_operation LogEntry = LogEntryOperation"
  by (auto simp: log_entry_pb_to_mapping_def Let_def message_truthy_def LogEntry_def)

subsection \<open>Entry mapping to message\<close>

text \<open>
  Each block of the conversion writes its own field of the message (the loop over the
  scalar keys writes three) and leaves the message as it is when its key is absent; a
  block that writes a payload field may reset the other two payload fields.
\<close>

lemma scalar_keys_to_pb_frame:
  assumes "scalar_keys_to_pb optional_scalar_keys m pb = Inr pb'"
  shows "\<exists>a b c j q.
           pb' = pb\<lparr>le_log_name := a, le_insert_id := b, le_text_payload := c,
                    le_json_payload := j, le_proto_payload := q\<rparr>
           \<and> (m ''log_name'' = None \<longrightarrow> a = le_log_name pb)
           \<and> (m ''insert_id'' = None \<longrightarrow> b = le_insert_id pb)
           \<and> (m ''text_payload'' = None \<longrightarrow> c = le_text_payload pb)
           \<and> (j = le_json_payload pb \<or> j = Map.empty)
           \<and> (q = le_proto_payload pb \<or> q = Any)"
  using assms
  by (intro exI [of _ "le_log_name pb'"] exI [of _ "le_insert_id pb'"]
        exI [of _ "le_text_payload pb'"] exI [of _ "le_json_payload pb'"]
        exI [of _ "le_proto_payload pb'"])
     (auto simp: optional_scalar_keys_def setattr_log_entry_def and_then_def
           split: option.splits sum.splits)

lemma resource_to_pb_frame:
  assumes "resource_to_pb m pb = Inr pb'"
  shows "\<exists>x. pb' = pb\<lparr>le_resource := x\<rparr> \<and> (m ''resource'' = None \<longrightarrow> x = le_resource pb)"
  using assms
  by (intro exI [of _ "le_resource pb'"])
     (auto simp: resource_to_pb_def and_then_def split: option.splits sum.splits)

lemma severity_to_pb_frame:
  assumes "severity_to_pb ext m pb = Inr pb'"
  shows "\<exists>x. pb' = pb\<lparr>le_severity := x\<rparr> \<and> (m ''severity'' = None \<longrightarrow> x = le_severity pb)"
  using assms
  by (intro exI [of _ "le_severity pb'"])
     (auto simp: severity_to_pb_def and_then_def split: option.splits sum.splits)

lemma timestamp_to_pb_frame:
  assumes "timestamp_to_pb ext m pb = Inr pb'"
  shows "\<exists>x. pb' = pb\<lparr>le_timestamp := x\<rparr> \<and> (m ''timestamp'' = None \<longrightarrow> x = le_timestamp pb)"
  using assms
  by (intro exI [of _ "le_timestamp pb'"])
     (auto simp: timestamp_to_pb_def and_then_def split: option.splits sum.splits)

lemma label_items_to_pb_frame:
  fixes pb' :: "'v log_entry_pb"
  shows "label_items_to_pb items pb = (Inr pb' :: 'c error + 'v log_entry_pb)
         \<Longrightarrow> pb' = pb\<lparr>le_labels := le_labels pb'\<rparr>"
proof (induction items arbitrary: pb)
  case Nil
  then show ?case by simp
next
  case (Cons item items)
  obtain key v where item: "item = (key, v)" by (cases item)
  from Cons.prems item obtain s where
    rest: "label_items_to_pb items (pb\<lparr>le_labels := (le_labels pb)(key \<mapsto> s)\<rparr>)
             = (Inr pb' :: 'c error + 'v log_entry_pb)"
    by (auto split: sum.splits)
  from Cons.IH [OF rest]
  have "pb' = (pb\<lparr>le_labels := (le_labels pb)(key \<mapsto> s)\<rparr>)\<lparr>le_labels := le_labels pb'\<rparr>" .
  then show ?case by simp
qed

lemma labels_to_pb_frame:
  assumes "labels_to_pb m pb = Inr pb'"
  shows "\<exists>x. pb' = pb\<lparr>le_labels := x\<rparr> \<and> (m ''labels'' = None \<longrightarrow> x = le_labels pb)"
  using assms label_items_to_pb_frame
  by (intro exI [of _ "le_labels pb'"])
     (auto simp: labels_to_pb_def and_then_def split: option.splits sum.splits)

lemma json_items_to_pb_frame:
  "json_items_to_pb ext items pb = Inr pb'
   \<Longrightarrow> pb' = pb\<lparr>le_json_payload := le_json_payload pb',
                   le_text_payload := le_text_payload pb',
                   le_proto_payload := le_proto_payload pb'\<rparr>
       \<and> (le_text_payload pb' = le_text_payload pb \<or> le_text_payload pb' = [])
       \<and> (le_proto_payload pb' = le_proto_payload pb \<or> le_proto_payload pb' = Any)"
proof (induction items arbitrary: pb)
  case Nil
  then show ?case by simp
next
  case (Cons item items)
  obtain key v where item: "item = (key, v)" by (cases item)
  define pb1 where
    "pb1 x = pb\<lparr>le_json_payload := (le_json_payload pb)(key \<mapsto> x),
                   le_text_payload := [], le_proto_payload := Any\<rparr>" for x
  from Cons.prems item obtain x where
    rest: "json_items_to_pb ext items (pb1 x) = Inr pb'"
    by (auto simp: pb1_def split: sum.splits)
  from Cons.IH [OF rest] have
    eq: "pb' = (pb1 x)\<lparr>le_json_payload := le_json_payload pb',
                          le_text_payload := le_text_payload pb',
                          le_proto_payload := le_proto_payload pb'\<rparr>"
    and t: "le_text_payload pb' = le_text_payload (pb1 x) \<or> le_text_payload pb' = []"
    and q: "le_proto_payload pb' = le_proto_payload (pb1 x) \<or> le_proto_payload pb' = Any"
    by blast+
  have "pb' = pb\<lparr>le_json_payload := le_json_payload pb',
                   le_text_payload := le_text_payload pb',
                   le_proto_payload := le_proto_payload pb'\<rparr>"
    by (subst eq) (simp add: pb1_def)
  moreover from t have "le_text_payload pb' = []" by (simp add: pb1_def)
  moreover from q have "le_proto_payload pb' = Any" by (simp add: pb1_def)
  ultimately show ?case by simp
qed

lemma json_payload_to_pb_frame:
  assumes "json_payload_to_pb ext m pb = Inr pb'"
  shows "\<exists>j t q.
           pb' = pb\<lparr>le_json_payload := j, le_text_payload := t, le_proto_payload := q\<rparr>
           \<and> (m ''json_payload'' = None \<longrightarrow> j = le_json_payload pb)
           \<and> (t = le_text_payload pb \<or> t = [])
           \<and> (q = le_proto_payload pb \<or> q = Any)"
proof (cases "m ''json_payload''")
  case None
  with assms have "pb' = pb" by (simp add: json_payload_to_pb_def)
  then show ?thesis
    by (intro exI [of _ "le_json_payload pb"] exI [of _ "le_text_payload pb"]
          exI [of _ "le_proto_payload pb"]) simp
next
  case (Some payload)
  with assms obtain items where "json_items_to_pb ext items pb = Inr pb'"
    by (auto simp: json_payload_to_pb_def and_then_def split: sum.splits)
  from json_items_to_pb_frame [OF this] Some show ?thesis
    by (intro exI [of _ "le_json_payload pb'"] exI [of _ "le_text_payload pb'"]
          exI [of _ "le_proto_payload pb'"]) simp
qed

lemma proto_payload_to_pb_frame:
  assumes "proto_payload_to_pb ext m pb = Inr pb'"
  shows "\<exists>q t j.
           pb' = pb\<lparr>le_proto_payload := q, le_text_payload := t, le_json_payload := j\<rparr>
           \<and> (m ''proto_payload'' = None \<longrightarrow> q = le_proto_payload pb)
           \<and> (t = le_text_payload pb \<or> t = [])
           \<and> (j = le_json_payload pb \<or> j = Map.empty)"
  using assms
  by (intro exI [of _ "le_proto_payload pb'"] exI [of _ "le_text_payload pb'"]
        exI [of _ "le_json_payload pb'"])
     (auto simp: proto_payload_to_pb_def and_then_def split: option.splits sum.splits if_splits)

lemma http_request_to_pb_frame:
  assumes "http_request_to_pb m pb = Inr pb'"
  shows "\<exists>x. pb' = pb\<lparr>le_http_request := x\<rparr> \<and> (m ''http_request'' = None \<longrightarrow> x = le_http_request pb)"
  using assms
  by (intro exI [of _ "le_http_request pb'"])
     (auto simp: http_request_to_pb_def and_then_def split: option.splits sum.splits)

lemma operation_to_pb_frame:
  assumes "operation_to_pb m pb = Inr pb'"
  shows "\<exists>x. pb' = pb\<lparr>le_operation := x\<rparr> \<and> (m ''operation'' = None \<longrightarrow> x = le_operation pb)"
  using assms
  by (intro exI [of _ "le_operation pb'"])
     (auto simp: operation_to_pb_def and_then_def split: option.splits sum.splits)

lemma log_entry_mapping_to_pb_steps:
  fixes ext :: "('c, 'v) externals"
  assumes "log_entry_mapping_to_pb ext m = Inr pb"
  obtains p1 p2 p3 p4 p5 p6 p7 p8 where
    "scalar_keys_to_pb optional_scalar_keys m LogEntry = (Inr p1 :: 'c error + 'v log_entry_pb)"
    "resource_to_pb m p1 = (Inr p2 :: 'c error + 'v log_entry_pb)"
    "severity_to_pb ext m p2 = Inr p3"
    "timestamp_to_pb ext m p3 = Inr p4"
    "labels_to_pb m p4 = (Inr p5 :: 'c error + 'v log_entry_pb)"
    "json_payload_to_pb ext m p5 = Inr p6"
    "proto_payload_to_pb ext m p6 = Inr p7"
    "http_request_to_pb m p7 = (Inr p8 :: 'c error + 'v log_entry_pb)"
    "operation_to_pb m p8 = (Inr pb :: 'c error + 'v log_entry_pb)"
  using assms
  by (auto simp: log_entry_mapping_to_pb_def and_then_def Let_def split: sum.splits)

text \<open>
  C4: when the conversion returns a message, every field whose key is absent from the
  mapping has its default value. The empty mapping converts to the default LogEntry, so
  the conversion starts from it; a mapping without \<open>labels\<close> gives the empty label map, and
  \<open>labels = {"a": "b"}\<close> gives the map holding that pair only.
\<close>

theorem log_entry_mapping_to_pb_frame:
  fixes ext :: "('c, 'v) externals"
  shows
  "(\<forall>entry_pb. log_entry_mapping_to_pb ext mapping = Inr entry_pb \<longrightarrow>
      (mapping ''log_name'' = None \<longrightarrow> le_log_name entry_pb = [])
    \<and> (mapping ''insert_id'' = None \<longrightarrow> le_insert_id entry_pb = [])
    \<and> (mapping ''text_payload'' = None \<longrightarrow> le_text_payload entry_pb = [])
    \<and> (mapping ''resource'' = None \<longrightarrow> le_resource entry_pb = MonitoredResource)
    \<and> (mapping ''severity'' = None \<longrightarrow> le_severity entry_pb = 0)
    \<and> (mapping ''timestamp'' = None \<longrightarrow> le_timestamp entry_pb = Timestamp)
    \<and> (mapping ''labels'' = None \<longrightarrow> le_labels entry_pb = Map.empty)
    \<and> (mapping ''json_payload'' = None \<longrightarrow> le_json_payload entry_pb = Map.empty)
    \<and> (mapping ''proto_payload'' = None \<longrightarrow> le_proto_payload entry_pb = Any)
    \<and> (mapping ''http_request'' = None \<longrightarrow> le_http_request entry_pb = HttpRequest)
    \<and> (mapping ''operation'' = None \<longrightarrow> le_operation entry_pb = LogEntryOperation))
   \<and> log_entry_mapping_to_pb ext Map.empty = Inr LogEntry
   \<and> log_entry_mapping_to_pb ext [''labels'' \<mapsto> PDict [(''a'', PStr ''b'')]]
       = Inr (LogEntry\<lparr>le_labels := [''a'' \<mapsto> ''b'']\<rparr>)"
proof (intro conjI allI impI)
  show "log_entry_mapping_to_pb ext Map.empty = Inr LogEntry"
    by (simp add: log_entry_mapping_to_pb_def and_then_def optional_scalar_keys_def
          resource_to_pb_def severity_to_pb_def timestamp_to_pb_def labels_to_pb_def
          json_payload_to_pb_def proto_payload_to_pb_def http_request_to_pb_def
          operation_to_pb_def)
  show "log_entry_mapping_to_pb ext [''labels'' \<mapsto> PDict [(''a'', PStr ''b'')]]
          = Inr (LogEntry\<lparr>le_labels := [''a'' \<mapsto> ''b'']\<rparr>)"
    by (simp add: log_entry_mapping_to_pb_def and_then_def optional_scalar_keys_def
          resource_to_pb_def severity_to_pb_def timestamp_to_pb_def labels_to_pb_def
          json_payload_to_pb_def proto_payload_to_pb_def http_request_to_pb_def
          operation_to_pb_def string_field_def LogEntry_def)
next
  fix entry_pb :: "'v log_entry_pb"
  assume conv: "log_entry_mapping_to_pb ext mapping = Inr entry_pb"
  from log_entry_mapping_to_pb_steps [OF conv] obtain p1 p2 p3 p4 p5 p6 p7 p8 where
    s1: "scalar_keys_to_pb optional_scalar_keys mapping LogEntry = (Inr p1 :: 'c error + 'v log_entry_pb)"
    and s2: "resource_to_pb mapping p1 = (Inr p2 :: 'c error + 'v log_entry_pb)"
    and s3: "severity_to_pb ext mapping p2 = Inr p3"
    and s4: "timestamp_to_pb ext mapping p3 = Inr p4"
    and s5: "labels_to_pb mapping p4 = (Inr p5 :: 'c error + 'v log_entry_pb)"
    and s6: "json_payload_to_pb ext mapping p5 = Inr p6"
    and s7: "proto_payload_to_pb ext mapping p6 = Inr p7"
    and s8: "http_request_to_pb mapping p7 = (Inr p8 :: 'c error + 'v log_entry_pb)"
    and s9: "operation_to_pb mapping p8 = (Inr entry_pb :: 'c error + 'v log_entry_pb)"
    by blast
  from scalar_keys_to_pb_frame [OF s1] obtain a b c j1 q1 where
    e1: "p1 = LogEntry\<lparr>le_log_name := a, le_insert_id := b, le_text_payload := c,
                        le_json_payload := j1, le_proto_payload := q1\<rparr>"
    and c1: "mapping ''log_name'' = None \<longrightarrow> a = []"
      "mapping ''insert_id'' = None \<longrightarrow> b = []"
      "mapping ''text_payload'' = None \<longrightarrow> c = []"
      "j1 = Map.empty" "q1 = Any"
    by (auto simp: LogEntry_def)
  from resource_to_pb_frame [OF s2] obtain x2 where
    e2: "p2 = p1\<lparr>le_resource := x2\<rparr>"
    and c2: "mapping ''resource'' = None \<longrightarrow> x2 = le_resource p1"
    by auto
  from severity_to_pb_frame [OF s3] obtain x3 where
    e3: "p3 = p2\<lparr>le_severity := x3\<rparr>"
    and c3: "mapping ''severity'' = None \<longrightarrow> x3 = le_severity p2"
    by auto
  from timestamp_to_pb_frame [OF s4] obtain x4 where
    e4: "p4 = p3\<lparr>le_timestamp := x4\<rparr>"
    and c4: "mapping ''timestamp'' = None \<longrightarrow> x4 = le_timestamp p3"
    by auto
  from labels_to_pb_frame [OF s5] obtain x5 where
    e5: "p5 = p4\<lparr>le_labels := x5\<rparr>"
    and c5: "mapping ''labels'' = None \<longrightarrow> x5 = le_labels p4"
    by auto
  from json_payload_to_pb_frame [OF s6] obtain x6 t6 q6 where
    e6: "p6 = p5\<lparr>le_json_payload := x6, le_text_payload := t6, le_proto_payload := q6\<rparr>"
    and c6: "mapping ''json_payload'' = None \<longrightarrow> x6 = le_json_payload p5"
      "t6 = le_text_payload p5 \<or> t6 = []"
      "q6 = le_proto_payload p5 \<or> q6 = Any"
    by (elim exE conjE) (rule that)
  from proto_payload_to_pb_frame [OF s7] obtain x7 t7 j7 where
    e7: "p7 = p6\<lparr>le_proto_payload := x7, le_text_payload := t7, le_json_payload := j7\<rparr>"
    and c7: "mapping ''proto_payload'' = None \<longrightarrow> x7 = le_proto_payload p6"
      "t7 = le_text_payload p6 \<or> t7 = []"
      "j7 = le_json_payload p6 \<or> j7 = Map.empty"
    by (elim exE conjE) (rule that)
  from http_request_to_pb_frame [OF s8] obtain x8 where
    e8: "p8 = p7\<lparr>le_http_request := x8\<rparr>"
    and c8: "mapping ''http_request'' = None \<longrightarrow> x8 = le_http_request p7"
    by auto
  from operation_to_pb_frame [OF s9] obtain x9 where
    e9: "entry_pb = p8\<lparr>le_operation := x9\<rparr>"
    and c9: "mapping ''operation'' = None \<longrightarrow> x9 = le_operation p8"
    by auto
  note e = e1 e2 e3 e4 e5 e6 e7 e8 e9
  { assume "mapping ''log_name'' = None"
    with c1 show "le_log_name entry_pb = []" by (simp add: e) }
  { assume "mapping ''insert_id'' = None"
    with c1 show "le_insert_id entry_pb = []" by (simp add: e) }
  { assume "mapping ''text_payload'' = None"
    with c1 c6 c7 show "le_text_payload entry_pb = []" by (auto simp: e) }
  { assume "mapping ''resource'' = None"
    with c2 show "le_resource entry_pb = MonitoredResource" by (simp add: e LogEntry_def) }
  { assume "mapping ''severity'' = None"
    with c3 show "le_severity entry_pb = 0" by (simp add: e LogEntry_def) }
  { assume "mapping ''timestamp'' = None"
    with c4 show "le_timestamp entry_pb = Timestamp" by (simp add: e LogEntry_def) }
  { assume "mapping ''labels'' = None"
    with c5 show "le_labels entry_pb = Map.empty" by (simp add: e LogEntry_def) }
  { assume "mapping ''json_payload'' = None"
    with c1 c6 c7 show "le_json_payload entry_pb = Map.empty" by (auto simp: e LogEntry_def) }
  { assume "mapping ''proto_payload'' = None"
    with c1 c6 c7 show "le_proto_payload entry_pb = Any" by (auto simp: e LogEntry_def) }
  { assume "mapping ''http_request'' = None"
    with c8 show "le_http_request entry_pb = HttpRequest" by (simp add: e LogEntry_def) }
  { assume "mapping ''operation'' = None"
    with c9 show "le_operation entry_pb = LogEntryOperation" by (simp add: e LogEntry_def) }
qed

theorem log_entry_mapping_to_pb_frame_witness:
  "log_entry_mapping_to_pb (sample_externals :: (unit, pyval) externals)
     [''log_name'' \<mapsto> PStr ''projects/p1/logs/l1'', ''severity'' \<mapsto> PInt 500]
     = Inr (LogEntry\<lparr>le_log_name := ''projects/p1/logs/l1'', le_severity := 500\<rparr>)
   \<and> le_insert_id (LogEntry\<lparr>le_log_name := ''projects/p1/logs/l1'', le_severity := 500\<rparr>
                      :: pyval log_entry_pb) = []
   \<and> le_labels (LogEntry\<lparr>le_log_name := ''projects/p1/logs/l1'', le_severity := 500\<rparr>
                      :: pyval log_entry_pb) = Map.empty
   \<and> le_operation (LogEntry\<lparr>le_log_name := ''projects/p1/logs/l1'', le_severity := 500\<rparr>
                      :: pyval log_entry_pb) = LogEntryOperation
   \<and> log_entry_mapping_to_pb (sample_externals :: (unit, pyval) externals) Map.empty
     = Inr LogEntry"
proof -
  let ?m = "[''log_name'' \<mapsto> PStr ''projects/p1/logs/l1'', ''severity'' \<mapsto> PInt 500]"
  let ?pb = "LogEntry\<lparr>le_log_name := ''projects/p1/logs/l1'', le_severity := 500\<rparr>
               :: pyval log_entry_pb"
  note T = log_entry_mapping_to_pb_frame [of "sample_externals :: (unit, pyval) externals" ?m]
  have conv: "log_entry_mapping_to_pb (sample_externals :: (unit, pyval) externals) ?m = Inr ?pb"
    by (simp add: log_entry_mapping_to_pb_def and_then_def optional_scalar_keys_def
          setattr_log_entry_def string_field_def enum_field_def int_field_def int_in_width_def
          resource_to_pb_def severity_to_pb_def timestamp_to_pb_def labels_to_pb_def
          json_payload_to_pb_def proto_payload_to_pb_def http_request_to_pb_def
          operation_to_pb_def LogEntry_def)
  have absent: "?m ''insert_id'' = None" "?m ''labels'' = None" "?m ''operation'' = None"
    by simp_all
  from T conv absent have
    "le_insert_id ?pb = [] \<and> le_labels ?pb = Map.empty \<and> le_operation ?pb = LogEntryOperation"
    by blast
  moreover from T have
    "log_entry_mapping_to_pb (sample_externals :: (unit, pyval) externals) Map.empty = Inr LogEntry"
    by blast
  ultimately show ?thesis using conv by simp
qed

subsection \<open>Severity\<close>

text \<open>
  The severity block is the only one that reads the key \<open>severity\<close>. A name goes through
  the lookup and is then assigned as the number found; the later blocks keep the field.
\<close>

lemma severity_to_pb_name:
  assumes "m ''severity'' = Some (PStr name)"
  shows "severity_to_pb ext m pb =
           (case LogSeverity_Value ext name of
              None \<Rightarrow> Inl ValueError
            | Some n \<Rightarrow>
                and_then (enum_field (PInt n)) (\<lambda>k. Inr (pb\<lparr>le_severity := k\<rparr>)))"
  using assms
  by (simp add: severity_to_pb_def and_then_def split: option.splits)


lemma enum_field_number:
  "enum_field (PInt n) = Inr k \<Longrightarrow> k = n"
  "- (2 ^ 31) \<le> n \<Longrightarrow> n < 2 ^ 31 \<Longrightarrow> enum_field (PInt n) = Inr n"
  by (auto simp: enum_field_def int_field_def int_in_width_def split: if_splits)





lemma severity_in_result:
  fixes ext :: "('c, 'v) externals"
  assumes conv: "log_entry_mapping_to_pb ext m = Inr pb"
    and sev: "m ''severity'' = Some (PStr name)"
    and val: "LogSeverity_Value ext name = Some n"
  shows "le_severity pb = n"
proof -
  from log_entry_mapping_to_pb_steps [OF conv] obtain p1 p2 p3 p4 p5 p6 p7 p8 where
    s1: "scalar_keys_to_pb optional_scalar_keys m LogEntry = (Inr p1 :: 'c error + 'v log_entry_pb)"
    and s2: "resource_to_pb m p1 = (Inr p2 :: 'c error + 'v log_entry_pb)"
    and s3: "severity_to_pb ext m p2 = Inr p3"
    and s4: "timestamp_to_pb ext m p3 = Inr p4"
    and s5: "labels_to_pb m p4 = (Inr p5 :: 'c error + 'v log_entry_pb)"
    and s6: "json_payload_to_pb ext m p5 = Inr p6"
    and s7: "proto_payload_to_pb ext m p6 = Inr p7"
    and s8: "http_request_to_pb m p7 = (Inr p8 :: 'c error + 'v log_entry_pb)"
    and s9: "operation_to_pb m p8 = (Inr pb :: 'c error + 'v log_entry_pb)"
    by blast
  from s3 sev val have "le_severity p3 = n"
    by (auto simp: severity_to_pb_name and_then_def dest: enum_field_number(1)
             split: sum.splits)
  moreover from timestamp_to_pb_frame [OF s4] have "le_severity p4 = le_severity p3" by auto
  moreover from labels_to_pb_frame [OF s5] have "le_severity p5 = le_severity p4" by auto
  moreover from json_payload_to_pb_frame [OF s6] have "le_severity p6 = le_severity p5" by auto
  moreover from proto_payload_to_pb_frame [OF s7] have "le_severity p7 = le_severity p6" by auto
  moreover from http_request_to_pb_frame [OF s8] have "le_severity p8 = le_severity p7" by auto
  moreover from operation_to_pb_frame [OF s9] have "le_severity pb = le_severity p8" by auto
  ultimately show ?thesis by simp
qed


lemma severity_only:
  "log_entry_mapping_to_pb ext [''severity'' \<mapsto> PStr name]
     = (case LogSeverity_Value ext name of
          None \<Rightarrow> Inl ValueError
        | Some n \<Rightarrow>
            and_then (enum_field (PInt n)) (\<lambda>k. Inr (LogEntry\<lparr>le_severity := k\<rparr>)))"
  by (simp add: log_entry_mapping_to_pb_def and_then_def optional_scalar_keys_def
        resource_to_pb_def severity_to_pb_name timestamp_to_pb_def labels_to_pb_def
        json_payload_to_pb_def proto_payload_to_pb_def http_request_to_pb_def
        operation_to_pb_def split: option.splits sum.splits)



text \<open>
  C10: the mapping built from a message has the message's severity number under
  \<open>severity\<close>, never a name. So a mapping with the severity \<open>"ERROR"\<close> that converts to a
  message comes back with the number of \<open>"ERROR"\<close> in place of the string; the mapping
  holding that key alone does convert, when the number fits the 32 bits of the field.
\<close>

theorem severity_comes_back_numeric:
  fixes ext :: "('c, 'v) externals" and entry_pb :: "'v log_entry_pb"
  shows
  "log_entry_pb_to_mapping entry_pb ''severity'' = Some (Py (PInt (le_severity entry_pb)))
   \<and> (\<forall>name. log_entry_pb_to_mapping entry_pb ''severity'' \<noteq> Some (Py (PStr name)))
   \<and> (\<forall>n pb. LogSeverity_Value ext ''ERROR'' = Some n
        \<and> mapping ''severity'' = Some (PStr ''ERROR'')
        \<and> log_entry_mapping_to_pb ext mapping = Inr pb
        \<longrightarrow> log_entry_pb_to_mapping pb ''severity'' = Some (Py (PInt n)))
   \<and> (\<forall>n. LogSeverity_Value ext ''ERROR'' = Some n \<and> - (2 ^ 31) \<le> n \<and> n < 2 ^ 31 \<longrightarrow>
        (\<exists>pb. log_entry_mapping_to_pb ext [''severity'' \<mapsto> PStr ''ERROR''] = Inr pb
              \<and> log_entry_pb_to_mapping pb ''severity'' = Some (Py (PInt n))))"
proof -
  have sev: "log_entry_pb_to_mapping pb ''severity'' = Some (Py (PInt (le_severity pb)))"
    for pb :: "'v log_entry_pb"
    by (simp add: log_entry_pb_to_mapping_def Let_def)
  have returned: "log_entry_pb_to_mapping pb ''severity'' = Some (Py (PInt n))"
    if "LogSeverity_Value ext ''ERROR'' = Some n"
      and "mapping ''severity'' = Some (PStr ''ERROR'')"
      and "log_entry_mapping_to_pb ext mapping = Inr pb" for n pb
    using severity_in_result [OF that(3) that(2) that(1)] by (simp add: sev)
  have single: "\<exists>pb. log_entry_mapping_to_pb ext [''severity'' \<mapsto> PStr ''ERROR''] = Inr pb
                    \<and> log_entry_pb_to_mapping pb ''severity'' = Some (Py (PInt n))"
    if "LogSeverity_Value ext ''ERROR'' = Some n" and "- (2 ^ 31) \<le> n" and "n < 2 ^ 31" for n
    using that by (simp add: severity_only sev and_then_def enum_field_number(2))
  show ?thesis
  proof (intro conjI allI impI)
    show "log_entry_pb_to_mapping entry_pb ''severity''
            = Some (Py (PInt (le_severity entry_pb)))"
      by (rule sev)
    show "log_entry_pb_to_mapping entry_pb ''severity'' \<noteq> Some (Py (PStr name))" for name
      by (simp add: sev)
    show "log_entry_pb_to_mapping pb ''severity'' = Some (Py (PInt n))"
      if "LogSeverity_Value ext ''ERROR'' = Some n
          \<and> mapping ''severity'' = Some (PStr ''ERROR'')
          \<and> log_entry_mapping_to_pb ext mapping = Inr pb" for n pb
      using that returned by blast
    show "\<exists>pb. log_entry_mapping_to_pb ext [''severity'' \<mapsto> PStr ''ERROR''] = Inr pb
               \<and> log_entry_pb_to_mapping pb ''severity'' = Some (Py (PInt n))"
      if "LogSeverity_Value ext ''ERROR'' = Some n \<and> - (2 ^ 31) \<le> n \<and> n < 2 ^ 31" for n
      using that single by blast
  qed
qed

theorem severity_comes_back_numeric_witness:
  "log_entry_mapping_to_pb (sample_externals :: (unit, pyval) externals)
     [''severity'' \<mapsto> PStr ''ERROR''] = Inr (LogEntry\<lparr>le_severity := 500\<rparr>)
   \<and> log_entry_pb_to_mapping (LogEntry\<lparr>le_severity := 500\<rparr> :: pyval log_entry_pb) ''severity''
       = Some (Py (PInt 500))
   \<and> [''severity'' \<mapsto> PStr ''ERROR''] ''severity'' = Some (PStr ''ERROR'')"
proof -
  let ?ext = "sample_externals :: (unit, pyval) externals"
  let ?pb = "LogEntry\<lparr>le_severity := 500\<rparr> :: pyval log_entry_pb"
  have v: "LogSeverity_Value ?ext ''ERROR'' = Some 500"
    by (simp add: sample_externals_def)
  have conv: "log_entry_mapping_to_pb ?ext [''severity'' \<mapsto> PStr ''ERROR''] = Inr ?pb"
    using v by (simp add: severity_only and_then_def enum_field_number(2))
  have m: "[''severity'' \<mapsto> PStr ''ERROR''] ''severity'' = Some (PStr ''ERROR'')"
    by simp
  from severity_comes_back_numeric [of ?pb ?ext "[''severity'' \<mapsto> PStr ''ERROR'']"] v m conv
  have "log_entry_pb_to_mapping ?pb ''severity'' = Some (Py (PInt 500))"
    by blast
  then show ?thesis using conv m by simp
qed

subsection \<open>write\_entries\<close>







end
